theory Spec2Isabelle
  imports Complex_Main "HOL-Library.Word"
begin

section \<open>The Balancer vault client of beefy-v2 (\<^verbatim>\<open>class Vault\<close>)\<close>

text \<open>
  The embedding follows \<^verbatim>\<open>src/unnamed/part_001\<close>. Every \<^verbatim>\<open>async\<close> method is a function
  that returns \<open>error + result\<close>: \<open>Inl\<close> is a rejected promise (a \<^verbatim>\<open>throw\<close>), \<open>Inr\<close> the
  resolved value. The remote contracts, \<^verbatim>\<open>abiCoder.encodeFunctionCall\<close> and viem's
  \<^verbatim>\<open>getAddress\<close> are collaborators of the class; they are fields of the client record,
  so every theorem holds for all of them.
\<close>

subsection \<open>Errors\<close>

text \<open>
  \<open>Error m\<close> is \<^verbatim>\<open>new Error(m)\<close> thrown by the class itself. \<open>UnsupportedExitKind k\<close> is
  \<^verbatim>\<open>new Error(`Unsupported exit kind: ${exitKind}`)\<close> with the number kept as a number
  (its rendering by JavaScript is not modelled). \<open>Thrown who\<close> is a failure raised inside
  the collaborator or helper named \<open>who\<close>.
\<close>

datatype error =
    Error string
  | UnsupportedExitKind nat
  | Thrown string

type_synonym address = string
type_synonym bytes = "8 word list"

definition ZERO_ADDRESS :: address where
  "ZERO_ADDRESS = ''0x0000000000000000000000000000000000000000''"

text \<open>Sequential \<^verbatim>\<open>Array.prototype.map\<close> with a callback that may throw: the first
  throw aborts the whole map.\<close>

fun mapE :: "('a \<Rightarrow> error + 'b) \<Rightarrow> 'a list \<Rightarrow> error + 'b list" where
  "mapE f [] = Inr []"
| "mapE f (x # xs) =
     (case f x of
        Inl e \<Rightarrow> Inl e
      | Inr y \<Rightarrow> (case mapE f xs of Inl e \<Rightarrow> Inl e | Inr ys \<Rightarrow> Inr (y # ys)))"

subsection \<open>bignumber.js values\<close>

text \<open>
  A \<^verbatim>\<open>BigNumber\<close> is a finite decimal, an infinity or NaN. Finite values are embedded in
  \<open>rat\<close> (every decimal is a rational; \<^verbatim>\<open>plus\<close> and \<^verbatim>\<open>minus\<close> are exact in bignumber.js).
  \<open>bn_index\<close> is \<^verbatim>\<open>new BigNumber(xs[i])\<close> for an array of decoded \<^verbatim>\<open>uint256\<close> strings and
  \<open>bn_at\<close> is \<^verbatim>\<open>xs[i]\<close> as an operand of \<^verbatim>\<open>minus\<close> or \<^verbatim>\<open>plus\<close>: a read past the end gives
  \<^verbatim>\<open>undefined\<close>, which bignumber.js turns into NaN.
\<close>

datatype BigNumber = BN rat | BNInfinity | BNNegInfinity | BNNaN

fun bn_negated :: "BigNumber \<Rightarrow> BigNumber" where
  "bn_negated (BN a) = BN (- a)"
| "bn_negated BNInfinity = BNNegInfinity"
| "bn_negated BNNegInfinity = BNInfinity"
| "bn_negated BNNaN = BNNaN"

fun bn_plus :: "BigNumber \<Rightarrow> BigNumber \<Rightarrow> BigNumber" where
  "bn_plus BNNaN _ = BNNaN"
| "bn_plus _ BNNaN = BNNaN"
| "bn_plus (BN a) (BN b) = BN (a + b)"
| "bn_plus (BN a) y = y"
| "bn_plus x (BN b) = x"
| "bn_plus BNInfinity BNInfinity = BNInfinity"
| "bn_plus BNNegInfinity BNNegInfinity = BNNegInfinity"
| "bn_plus BNInfinity BNNegInfinity = BNNaN"
| "bn_plus BNNegInfinity BNInfinity = BNNaN"

definition bn_minus :: "BigNumber \<Rightarrow> BigNumber \<Rightarrow> BigNumber" where
  "bn_minus x y = bn_plus x (bn_negated y)"

text \<open>\<^verbatim>\<open>isEqualTo\<close>: NaN equals nothing, itself included.\<close>

definition bn_isEqualTo :: "BigNumber \<Rightarrow> BigNumber \<Rightarrow> bool" where
  "bn_isEqualTo x y = (x \<noteq> BNNaN \<and> x = y)"

definition bn_of_uint :: "nat \<Rightarrow> BigNumber" where
  "bn_of_uint n = BN (of_nat n)"

definition bn_of_sint :: "int \<Rightarrow> BigNumber" where
  "bn_of_sint n = BN (of_int n)"

definition bn_index :: "nat list \<Rightarrow> nat \<Rightarrow> BigNumber" where
  "bn_index xs i = (if i < length xs then bn_of_uint (xs ! i) else BNNaN)"

definition bn_at :: "BigNumber list \<Rightarrow> nat \<Rightarrow> BigNumber" where
  "bn_at xs i = (if i < length xs then xs ! i else BNNaN)"

text \<open>
  Modelled from the spec: \<^verbatim>\<open>bigNumberToUint256String\<close> of \<^verbatim>\<open>helpers/big-number\<close> is not
  among the sources. The spec calls its result a fixed-width unsigned integer string.
  The string is represented by the integer it spells; a value that has no such string
  (not an integer, outside the unsigned 256-bit range, not finite) makes the helper
  throw.
\<close>

definition bigNumberToUint256String :: "BigNumber \<Rightarrow> error + int" where
  "bigNumberToUint256String v =
     (case v of
        BN q \<Rightarrow>
          if of_int \<lfloor>q\<rfloor> = q \<and> 0 \<le> q \<and> q < 2 ^ 256 then Inr \<lfloor>q\<rfloor>
          else Inl (Thrown ''bigNumberToUint256String'')
      | _ \<Rightarrow> Inl (Thrown ''bigNumberToUint256String''))"


subsection \<open>Pool configuration and \<^verbatim>\<open>checkToken\<close>\<close>

record PoolToken =
  address :: address

record PoolConfig =
  tokens :: "PoolToken list"

text \<open>\<^verbatim>\<open>findIndex(...) === -1\<close> holds exactly when no element satisfies the predicate.
  The \<^verbatim>\<open>label\<close> parameter has the default \<^verbatim>\<open>'token'\<close>: \<open>None\<close> is the omitted argument.\<close>

definition findIndex :: "('a \<Rightarrow> bool) \<Rightarrow> 'a list \<Rightarrow> int" where
  "findIndex p xs =
     (case find (\<lambda>i. p (xs ! i)) [0..<length xs] of None \<Rightarrow> - 1 | Some i \<Rightarrow> int i)"

definition checkToken :: "PoolConfig \<Rightarrow> address \<Rightarrow> string option \<Rightarrow> error + unit" where
  "checkToken pool token label =
     (let lbl = (case label of None \<Rightarrow> ''token'' | Some l \<Rightarrow> l);
          index = findIndex (\<lambda>t. address t = token) (tokens pool)
      in if index = - 1 then Inl (Error (lbl @ '' must be a pool token'')) else Inr ())"

subsection \<open>Requests, responses and wire values\<close>

text \<open>
  The type declarations of \<^verbatim>\<open>./types\<close> are not among the sources; the records below
  have the fields the class reads and writes, under the names it uses. A field name
  shared by several records is written qualified. \<^verbatim>\<open>JoinPoolArgs\<close> extends the query
  request by \<^verbatim>\<open>sender\<close> and \<^verbatim>\<open>recipient\<close>, so a query may be handed a full
  \<^verbatim>\<open>JoinPoolArgs\<close> (TypeScript's structural typing), as the record scheme allows here.
\<close>

record JoinPoolRequest =
  assets :: "address list"
  maxAmountsIn :: "BigNumber list"
  userData :: bytes
  fromInternalBalance :: bool

record ExitPoolRequest =
  assets :: "address list"
  minAmountsOut :: "BigNumber list"
  userData :: bytes
  toInternalBalance :: bool

record 'r QueryPoolRequest =
  poolId :: string
  request :: 'r

record 'r PoolArgs = "'r QueryPoolRequest" +
  sender :: address
  recipient :: address

type_synonym JoinPoolArgs = "JoinPoolRequest PoolArgs"
type_synonym ExitPoolArgs = "ExitPoolRequest PoolArgs"

record FundManagement =
  sender :: address
  fromInternalBalance :: bool
  recipient :: address
  toInternalBalance :: bool

record BatchSwapStep =
  poolId :: string
  assetInIndex :: nat
  assetOutIndex :: nat
  amount :: BigNumber
  userData :: bytes

record QueryBatchSwapRequest =
  kind :: nat
  swaps :: "BatchSwapStep list"
  assets :: "address list"

record QueryBatchSwapArgs = QueryBatchSwapRequest +
  funds :: FundManagement

record BatchSwapArgs = QueryBatchSwapArgs +
  limits :: "BigNumber list"
  deadline :: nat

record SingleSwap =
  poolId :: string
  kind :: nat
  assetIn :: address
  assetOut :: address
  amount :: BigNumber
  userData :: bytes

record SwapArgs =
  singleSwap :: SingleSwap
  funds :: FundManagement
  limit :: BigNumber
  deadline :: nat

record JoinPoolZapRequest =
  join :: JoinPoolArgs
  insertBalance :: bool

record ExitPoolZapRequest =
  exit :: ExitPoolArgs
  poolAddress :: address
  insertBalance :: bool

record SwapZapRequest =
  swap :: SwapArgs
  insertBalance :: bool

text \<open>
  What the contracts return, after ABI decoding. A \<^verbatim>\<open>uint256\<close> arrives as a decimal
  string and is represented by its value; a field that is missing or is not an array is
  \<open>None\<close>, and so is a result that is \<^verbatim>\<open>undefined\<close> or \<^verbatim>\<open>null\<close>.
\<close>

record PoolTokensResult =
  tokens :: "string list option"
  balances :: "nat list option"

record JoinPoolResult =
  bptOut :: nat
  amountsIn :: "nat list option"

record ExitPoolResult =
  bptIn :: nat
  amountsOut :: "nat list option"

record PoolTokenBalance =
  token :: address
  balance :: BigNumber

record QueryJoinPoolResponse =
  liquidity :: BigNumber
  usedInput :: "BigNumber list"
  unusedInput :: "BigNumber list"

record QueryExitPoolResponse =
  liquidity :: BigNumber
  outputs :: "BigNumber list"

record StepToken =
  token :: address
  index :: nat

record ZapStep =
  target :: address
  "value" :: string
  data :: string
  tokens :: "StepToken list"

text \<open>
  The JavaScript values handed to web3 and to the ABI codec. \<open>AbiIntString n\<close> is the
  decimal string of \<open>n\<close> that a \<^verbatim>\<open>bigNumberTo...String\<close> helper produced; \<open>AbiNumber\<close> is a
  plain number; \<open>AbiObject\<close> an object literal, key by key.
\<close>

datatype AbiValue =
    AbiString string
  | AbiBool bool
  | AbiNumber nat
  | AbiIntString int
  | AbiBytes bytes
  | AbiArray "AbiValue list"
  | AbiObject "(string \<times> AbiValue) list"

record AbiItem =
  type :: string
  name :: string

subsection \<open>The client and its collaborators\<close>

text \<open>
  A collaborator's failure is \<open>Inl message\<close>; \<open>thrown\<close> rethrows it as \<open>Thrown message\<close>,
  so it is never confused with an \<open>Error\<close> of the class. \<^verbatim>\<open>getVaultContract\<close> and
  \<^verbatim>\<open>getQueryContract\<close> stand for the outcome of awaiting the lazy factories; the
  \<^verbatim>\<open>methods_\<close> fields are \<^verbatim>\<open>contract.methods.f(...).call()\<close>.
\<close>

record VaultContract =
  methods_getPoolTokens :: "string \<Rightarrow> string + PoolTokensResult option"
  methods_queryBatchSwap :: "AbiValue list \<Rightarrow> string + int list option"

record QueryContract =
  methods_queryJoin :: "AbiValue list \<Rightarrow> string + JoinPoolResult option"
  methods_queryExit :: "AbiValue list \<Rightarrow> string + ExitPoolResult option"

record VaultConfig =
  vaultAddress :: address
  queryAddress :: address

record Vault =
  config :: VaultConfig
  BalancerVaultAbi :: "AbiItem list"
  encodeFunctionCall :: "AbiItem \<Rightarrow> AbiValue list \<Rightarrow> string + string"
  getAddress :: "string \<Rightarrow> string + address"
  getVaultContract :: "string + VaultContract"
  getQueryContract :: "string + QueryContract"

definition thrown :: "string + 'a \<Rightarrow> error + 'a" where
  "thrown r = (case r of Inl m \<Rightarrow> Inl (Thrown m) | Inr x \<Rightarrow> Inr x)"

definition bindE :: "error + 'a \<Rightarrow> ('a \<Rightarrow> error + 'b) \<Rightarrow> error + 'b" where
  "bindE m f = (case m of Inl e \<Rightarrow> Inl e | Inr x \<Rightarrow> f x)"

definition queryFunds :: FundManagement where
  "queryFunds =
     \<lparr>sender = ZERO_ADDRESS, fromInternalBalance = False,
      recipient = ZERO_ADDRESS, toInternalBalance = False\<rparr>"

subsection \<open>Helpers the class imports\<close>

text \<open>
  Modelled from the spec: \<^verbatim>\<open>getInsertIndex\<close> of \<^verbatim>\<open>transact/helpers/zap\<close> is not among
  the sources. By the spec the function selector occupies the first 4 bytes of the call
  data and the 32-byte words start after it, so word \<open>w\<close> starts at byte \<open>4 + 32 * w\<close>.
\<close>

definition getInsertIndex :: "nat \<Rightarrow> nat" where
  "getInsertIndex position = 4 + 32 * position"

text \<open>
  Modelled from the spec: the enum \<^verbatim>\<open>WeightedPoolExitKind\<close> of \<^verbatim>\<open>../weighted/types\<close> is not
  among the sources. The spec gives the discriminant 0 to exact-BPT-in-for-all-tokens-out.
\<close>

definition EXACT_BPT_IN_FOR_TOKENS_OUT :: nat where
  "EXACT_BPT_IN_FOR_TOKENS_OUT = 0"

text \<open>
  Modelled from the spec: exact-BPT-in-for-one-token-out, the second exit kind the spec
  lists, has the discriminant 1.
\<close>

definition EXACT_BPT_IN_FOR_ONE_TOKEN_OUT :: nat where
  "EXACT_BPT_IN_FOR_ONE_TOKEN_OUT = 1"

text \<open>
  Modelled from the spec: BPT-in-for-exact-tokens-out, the third exit kind the spec
  lists, has the discriminant 2.
\<close>

definition BPT_IN_FOR_EXACT_TOKENS_OUT :: nat where
  "BPT_IN_FOR_EXACT_TOKENS_OUT = 2"

text \<open>
  \<^verbatim>\<open>abiCoder.decodeParameter('uint256', userData)\<close> reads the leading 32-byte word of the
  blob as a big-endian unsigned integer and throws when the blob is shorter. The class
  then takes \<^verbatim>\<open>new BigNumber(...).toNumber()\<close>; a double represents 0, 1 and 2 exactly and
  no larger integer rounds to them, so the \<^verbatim>\<open>switch\<close> is modelled on the integer itself.
\<close>

definition word_of_bytes :: "bytes \<Rightarrow> nat" where
  "word_of_bytes bs = foldl (\<lambda>acc b. 256 * acc + unat b) 0 bs"

definition decodeParameter_uint256 :: "bytes \<Rightarrow> error + nat" where
  "decodeParameter_uint256 bs =
     (if length bs < 32 then Inl (Thrown ''decodeParameter'')
      else Inr (word_of_bytes (take 32 bs)))"

subsection \<open>Call encoding\<close>

text \<open>\<^verbatim>\<open>getVaultFunctionAbi\<close> is a cached factory keyed by the name; the function it
  caches is pure, so the cache is not visible and is left out.\<close>

definition getVaultFunctionAbi :: "Vault \<Rightarrow> string \<Rightarrow> error + AbiItem" where
  "getVaultFunctionAbi this nm =
     (case find (\<lambda>abi. AbiItem.type abi = ''function'' \<and> AbiItem.name abi = nm)
             (BalancerVaultAbi this) of
        None \<Rightarrow> Inl (Error (''Function '' @ [CHR 0x22] @ nm @ [CHR 0x22] @ '' not found in vault ABI''))
      | Some methodAbi \<Rightarrow> Inr methodAbi)"

text \<open>Each \<^verbatim>\<open>encodeX\<close> is split in two: \<open>encodeX_arguments\<close> is the array literal
  handed to \<^verbatim>\<open>abiCoder.encodeFunctionCall\<close>, evaluated left to right.\<close>

definition encodeJoinPool_arguments :: "JoinPoolArgs \<Rightarrow> error + AbiValue list" where
  "encodeJoinPool_arguments args =
     bindE (mapE bigNumberToUint256String (maxAmountsIn (request args))) (\<lambda>amounts.
       Inr [AbiString (QueryPoolRequest.poolId args),
            AbiString (PoolArgs.sender args),
            AbiString (PoolArgs.recipient args),
            AbiArray [AbiArray (map AbiString (JoinPoolRequest.assets (request args))),
                      AbiArray (map AbiIntString amounts),
                      AbiBytes (JoinPoolRequest.userData (request args)),
                      AbiBool (JoinPoolRequest.fromInternalBalance (request args))]])"

definition encodeJoinPool :: "Vault \<Rightarrow> JoinPoolArgs \<Rightarrow> error + string" where
  "encodeJoinPool this args =
     bindE (getVaultFunctionAbi this ''joinPool'') (\<lambda>methodAbi.
     bindE (encodeJoinPool_arguments args) (\<lambda>arguments.
       thrown (encodeFunctionCall this methodAbi arguments)))"

definition encodeExitPool_arguments :: "ExitPoolArgs \<Rightarrow> error + AbiValue list" where
  "encodeExitPool_arguments args =
     bindE (mapE bigNumberToUint256String (minAmountsOut (request args))) (\<lambda>amounts.
       Inr [AbiString (QueryPoolRequest.poolId args),
            AbiString (PoolArgs.sender args),
            AbiString (PoolArgs.recipient args),
            AbiArray [AbiArray (map AbiString (ExitPoolRequest.assets (request args))),
                      AbiArray (map AbiIntString amounts),
                      AbiBytes (ExitPoolRequest.userData (request args)),
                      AbiBool (ExitPoolRequest.toInternalBalance (request args))]])"

definition encodeExitPool :: "Vault \<Rightarrow> ExitPoolArgs \<Rightarrow> error + string" where
  "encodeExitPool this args =
     bindE (getVaultFunctionAbi this ''exitPool'') (\<lambda>methodAbi.
     bindE (encodeExitPool_arguments args) (\<lambda>arguments.
       thrown (encodeFunctionCall this methodAbi arguments)))"

definition fundsTuple :: "FundManagement \<Rightarrow> AbiValue" where
  "fundsTuple f =
     AbiArray [AbiString (FundManagement.sender f),
               AbiBool (FundManagement.fromInternalBalance f),
               AbiString (FundManagement.recipient f),
               AbiBool (FundManagement.toInternalBalance f)]"

definition encodeSwap_arguments :: "SwapArgs \<Rightarrow> error + AbiValue list" where
  "encodeSwap_arguments args =
     bindE (bigNumberToUint256String (SingleSwap.amount (singleSwap args))) (\<lambda>amountString.
     bindE (bigNumberToUint256String (limit args)) (\<lambda>limitString.
       Inr [AbiArray [AbiString (SingleSwap.poolId (singleSwap args)),
                      AbiNumber (SingleSwap.kind (singleSwap args)),
                      AbiString (assetIn (singleSwap args)),
                      AbiString (assetOut (singleSwap args)),
                      AbiIntString amountString,
                      AbiBytes (SingleSwap.userData (singleSwap args))],
            fundsTuple (SwapArgs.funds args),
            AbiIntString limitString,
            AbiNumber (SwapArgs.deadline args)]))"

definition encodeSwap :: "Vault \<Rightarrow> SwapArgs \<Rightarrow> error + string" where
  "encodeSwap this args =
     bindE (getVaultFunctionAbi this ''swap'') (\<lambda>methodAbi.
     bindE (encodeSwap_arguments args) (\<lambda>arguments.
       thrown (encodeFunctionCall this methodAbi arguments)))"




subsection \<open>Read operations\<close>

definition getPoolTokens :: "Vault \<Rightarrow> string \<Rightarrow> error + PoolTokenBalance list" where
  "getPoolTokens this pid =
     bindE (thrown (getVaultContract this)) (\<lambda>vault.
     bindE (thrown (methods_getPoolTokens vault pid)) (\<lambda>result.
       case result of
         None \<Rightarrow> Inl (Error ''Invalid result'')
       | Some r \<Rightarrow>
          (case PoolTokensResult.tokens r of
             None \<Rightarrow> Inl (Error ''Invalid result'')
           | Some ts \<Rightarrow>
              (case balances r of
                 None \<Rightarrow> Inl (Error ''Invalid result'')
               | Some bs \<Rightarrow>
                   if length ts \<noteq> length bs then Inl (Error ''Invalid result'')
                   else mapE (\<lambda>(i, tk).
                          bindE (thrown (getAddress this tk)) (\<lambda>a.
                            Inr \<lparr>PoolTokenBalance.token = a, balance = bn_index bs i\<rparr>))
                        (enumerate 0 ts)))))"

text \<open>The object \<^verbatim>\<open>{...request, sender: ZERO_ADDRESS, recipient: ZERO_ADDRESS}\<close>: the
  fields of the request, then \<^verbatim>\<open>sender\<close> and \<^verbatim>\<open>recipient\<close> set, overriding any the
  request carried.\<close>

definition queryArgs :: "('r, 'z) QueryPoolRequest_scheme \<Rightarrow> 'r PoolArgs" where
  "queryArgs req =
     \<lparr>QueryPoolRequest.poolId = QueryPoolRequest.poolId req, request = request req,
      PoolArgs.sender = ZERO_ADDRESS, PoolArgs.recipient = ZERO_ADDRESS\<rparr>"

definition queryJoinPool_arguments :: "JoinPoolArgs \<Rightarrow> error + AbiValue list" where
  "queryJoinPool_arguments args =
     bindE (mapE bigNumberToUint256String (maxAmountsIn (request args))) (\<lambda>amounts.
       Inr [AbiString (QueryPoolRequest.poolId args),
            AbiString (PoolArgs.sender args),
            AbiString (PoolArgs.recipient args),
            AbiArray [AbiArray (map AbiString (JoinPoolRequest.assets (request args))),
                      AbiArray (map AbiIntString amounts),
                      AbiBytes (JoinPoolRequest.userData (request args)),
                      AbiBool (JoinPoolRequest.fromInternalBalance (request args))]])"

definition queryJoinPool ::
  "Vault \<Rightarrow> (JoinPoolRequest, 'z) QueryPoolRequest_scheme \<Rightarrow> error + QueryJoinPoolResponse" where
  "queryJoinPool this req =
     bindE (thrown (getQueryContract this)) (\<lambda>query.
     bindE (queryJoinPool_arguments (queryArgs req)) (\<lambda>arguments.
     bindE (thrown (methods_queryJoin query arguments)) (\<lambda>result.
       case result of
         None \<Rightarrow> Inl (Error ''Invalid result'')
       | Some r \<Rightarrow>
          (case amountsIn r of
             None \<Rightarrow> Inl (Error ''Invalid result'')
           | Some amounts \<Rightarrow>
               if length amounts \<noteq> length (JoinPoolRequest.assets (request req))
               then Inl (Error ''Invalid result'')
               else
                 let used = map bn_of_uint amounts
                 in Inr \<lparr>QueryJoinPoolResponse.liquidity = bn_of_uint (bptOut r),
                         usedInput = used,
                         unusedInput =
                           map (\<lambda>(i, a). bn_minus a (bn_at used i))
                               (enumerate 0 (maxAmountsIn (request req)))\<rparr>))))"

text \<open>\<^verbatim>\<open>queryExitPool\<close> converts \<^verbatim>\<open>minAmountsOut\<close> twice, first for \<^verbatim>\<open>console.debug\<close>; the
  output of the logging itself is not modelled.\<close>

definition queryExitPool_arguments :: "ExitPoolArgs \<Rightarrow> error + AbiValue list" where
  "queryExitPool_arguments args =
     bindE (mapE bigNumberToUint256String (minAmountsOut (request args))) (\<lambda>amounts.
       Inr [AbiString (QueryPoolRequest.poolId args),
            AbiString (PoolArgs.sender args),
            AbiString (PoolArgs.recipient args),
            AbiArray [AbiArray (map AbiString (ExitPoolRequest.assets (request args))),
                      AbiArray (map AbiIntString amounts),
                      AbiBytes (ExitPoolRequest.userData (request args)),
                      AbiBool (ExitPoolRequest.toInternalBalance (request args))]])"

definition queryExitPool ::
  "Vault \<Rightarrow> (ExitPoolRequest, 'z) QueryPoolRequest_scheme \<Rightarrow> error + QueryExitPoolResponse" where
  "queryExitPool this req =
     bindE (thrown (getQueryContract this)) (\<lambda>query.
     bindE (mapE bigNumberToUint256String (minAmountsOut (request (queryArgs req)))) (\<lambda>logged.
     bindE (queryExitPool_arguments (queryArgs req)) (\<lambda>arguments.
     bindE (thrown (methods_queryExit query arguments)) (\<lambda>result.
       case result of
         None \<Rightarrow> Inl (Error ''Invalid result'')
       | Some r \<Rightarrow>
          (case amountsOut r of
             None \<Rightarrow> Inl (Error ''Invalid result'')
           | Some amounts \<Rightarrow>
               if length amounts \<noteq> length (ExitPoolRequest.assets (request req))
               then Inl (Error ''Invalid result'')
               else Inr \<lparr>QueryExitPoolResponse.liquidity = bn_of_uint (bptIn r),
                         outputs = map bn_of_uint amounts\<rparr>)))))"

definition fundsObject :: "FundManagement \<Rightarrow> AbiValue" where
  "fundsObject f =
     AbiObject [(''sender'', AbiString (FundManagement.sender f)),
                (''fromInternalBalance'', AbiBool (FundManagement.fromInternalBalance f)),
                (''recipient'', AbiString (FundManagement.recipient f)),
                (''toInternalBalance'', AbiBool (FundManagement.toInternalBalance f))]"

definition querySwapObject :: "BatchSwapStep \<Rightarrow> error + AbiValue" where
  "querySwapObject s =
     bindE (bigNumberToUint256String (BatchSwapStep.amount s)) (\<lambda>amountString.
       Inr (AbiObject [(''poolId'', AbiString (BatchSwapStep.poolId s)),
                       (''assetInIndex'', AbiNumber (assetInIndex s)),
                       (''assetOutIndex'', AbiNumber (assetOutIndex s)),
                       (''amount'', AbiIntString amountString),
                       (''userData'', AbiBytes (BatchSwapStep.userData s))]))"

definition queryBatchSwap_arguments :: "QueryBatchSwapArgs \<Rightarrow> error + AbiValue list" where
  "queryBatchSwap_arguments args =
     bindE (mapE querySwapObject (swaps args)) (\<lambda>swapObjects.
       Inr [AbiNumber (QueryBatchSwapRequest.kind args),
            AbiArray swapObjects,
            AbiArray (map AbiString (QueryBatchSwapRequest.assets args)),
            fundsObject (QueryBatchSwapArgs.funds args)])"

definition queryBatchSwap ::
  "Vault \<Rightarrow> 'z QueryBatchSwapRequest_scheme \<Rightarrow> error + BigNumber list" where
  "queryBatchSwap this req =
     bindE (thrown (getVaultContract this)) (\<lambda>vault.
     bindE (queryBatchSwap_arguments
              \<lparr>QueryBatchSwapRequest.kind = QueryBatchSwapRequest.kind req,
               swaps = swaps req,
               assets = QueryBatchSwapRequest.assets req,
               QueryBatchSwapArgs.funds = queryFunds\<rparr>) (\<lambda>arguments.
     bindE (thrown (methods_queryBatchSwap vault arguments)) (\<lambda>result.
       case result of
         None \<Rightarrow> Inl (Error ''Invalid result'')
       | Some deltas \<Rightarrow>
           if length deltas \<noteq> length (QueryBatchSwapRequest.assets req)
           then Inl (Error ''Invalid result'')
           else Inr (map bn_of_sint deltas))))"

subsection \<open>Zap steps\<close>

definition getJoinPoolZap :: "Vault \<Rightarrow> JoinPoolZapRequest \<Rightarrow> error + ZapStep" where
  "getJoinPoolZap this req =
     (let maxAmountsInStartWord = 9 + length (JoinPoolRequest.assets (request (join req))) + 1
      in bindE (encodeJoinPool this (join req)) (\<lambda>d.
           Inr \<lparr>target = vaultAddress (config this), value = ''0'', data = d,
                tokens =
                  (if JoinPoolZapRequest.insertBalance req
                   then map (\<lambda>(i, a). \<lparr>StepToken.token = a,
                                        index = getInsertIndex (maxAmountsInStartWord + i)\<rparr>)
                            (enumerate 0 (JoinPoolRequest.assets (request (join req))))
                   else [])\<rparr>))"

definition getExitPoolZapTokens :: "ExitPoolZapRequest \<Rightarrow> error + StepToken list" where
  "getExitPoolZapTokens req =
     (if \<not> ExitPoolZapRequest.insertBalance req then Inr []
      else
        let userDataWordStart =
              9 + length (ExitPoolRequest.assets (request (exit req))) + 1
                + length (minAmountsOut (request (exit req))) + 1
        in bindE (decodeParameter_uint256 (ExitPoolRequest.userData (request (exit req))))
             (\<lambda>exitKind.
               if exitKind = EXACT_BPT_IN_FOR_TOKENS_OUT then
                 Inr [\<lparr>StepToken.token = poolAddress req,
                       index = getInsertIndex (userDataWordStart + 1)\<rparr>]
               else if exitKind = EXACT_BPT_IN_FOR_ONE_TOKEN_OUT then
                 Inr [\<lparr>StepToken.token = poolAddress req,
                       index = getInsertIndex (userDataWordStart + 1)\<rparr>]
               else if exitKind = BPT_IN_FOR_EXACT_TOKENS_OUT then
                 Inr [\<lparr>StepToken.token = poolAddress req,
                       index = getInsertIndex (userDataWordStart + 2)\<rparr>]
               else Inl (UnsupportedExitKind exitKind)))"

definition getExitPoolZap :: "Vault \<Rightarrow> ExitPoolZapRequest \<Rightarrow> error + ZapStep" where
  "getExitPoolZap this req =
     bindE (encodeExitPool this (exit req)) (\<lambda>d.
     bindE (getExitPoolZapTokens req) (\<lambda>ts.
       Inr \<lparr>target = vaultAddress (config this), value = ''0'', data = d, tokens = ts\<rparr>))"

definition getSwapZap :: "Vault \<Rightarrow> SwapZapRequest \<Rightarrow> error + ZapStep" where
  "getSwapZap this req =
     (let amountInIndex = getInsertIndex (7 + 4)
      in bindE (encodeSwap this (swap req)) (\<lambda>d.
           Inr \<lparr>target = vaultAddress (config this), value = ''0'', data = d,
                tokens =
                  (if SwapZapRequest.insertBalance req
                   then [\<lparr>StepToken.token = assetIn (singleSwap (swap req)),
                          index = amountInIndex\<rparr>]
                   else [])\<rparr>))"

subsection \<open>Restricting the query contract\<close>

text \<open>\<open>zeroParties\<close> holds of a \<^verbatim>\<open>queryJoin\<close> or \<^verbatim>\<open>queryExit\<close> argument list whose sender and
  recipient are both the zero address; \<open>onlyZeroParties q\<close> is the contract \<open>q\<close> made to
  reject every other call.\<close>

definition zeroParties :: "AbiValue list \<Rightarrow> bool" where
  "zeroParties arguments =
     (case arguments of
        [p, AbiString s, AbiString r, t] \<Rightarrow> s = ZERO_ADDRESS \<and> r = ZERO_ADDRESS
      | _ \<Rightarrow> False)"

definition onlyZeroParties :: "QueryContract \<Rightarrow> QueryContract" where
  "onlyZeroParties q =
     \<lparr>methods_queryJoin =
        (\<lambda>arguments. if zeroParties arguments then methods_queryJoin q arguments
                      else Inl ''sender or recipient is not the zero address''),
      methods_queryExit =
        (\<lambda>arguments. if zeroParties arguments then methods_queryExit q arguments
                      else Inl ''sender or recipient is not the zero address'')\<rparr>"

text \<open>\<open>echoParties\<close> is a query contract that rejects every call and reports, in the
  message of the rejection, the sender and the recipient it was called with.\<close>

definition echoParties :: QueryContract where
  "echoParties =
     \<lparr>methods_queryJoin =
        (\<lambda>arguments. case arguments of
            [p, AbiString s, AbiString r, t] \<Rightarrow> Inl (''sender '' @ s @ '' recipient '' @ r)
          | _ \<Rightarrow> Inl ''malformed call''),
      methods_queryExit =
        (\<lambda>arguments. case arguments of
            [p, AbiString s, AbiString r, t] \<Rightarrow> Inl (''sender '' @ s @ '' recipient '' @ r)
          | _ \<Rightarrow> Inl ''malformed call'')\<rparr>"

subsection \<open>A sample client and sample requests\<close>

text \<open>Concrete data on which the properties below are exercised: an ABI with the four
  functions, a codec that returns the name of the encoded function, and contracts that
  answer every call with a fixed result.\<close>

definition exampleAbi :: "AbiItem list" where
  "exampleAbi =
     [\<lparr>type = ''event'', name = ''Swap''\<rparr>,
      \<lparr>type = ''function'', name = ''joinPool''\<rparr>,
      \<lparr>type = ''function'', name = ''exitPool''\<rparr>,
      \<lparr>type = ''function'', name = ''swap''\<rparr>,
      \<lparr>type = ''function'', name = ''batchSwap''\<rparr>]"

definition exampleVault :: Vault where
  "exampleVault =
     \<lparr>config = \<lparr>vaultAddress = ''0xVault'', queryAddress = ''0xQueries''\<rparr>,
      BalancerVaultAbi = exampleAbi,
      encodeFunctionCall = (\<lambda>abi arguments. Inr (''0x:'' @ AbiItem.name abi)),
      getAddress = (\<lambda>a. Inr (''checksummed:'' @ a)),
      getVaultContract = Inl ''no vault contract'',
      getQueryContract = Inl ''no query contract''\<rparr>"

definition exampleJoin :: JoinPoolArgs where
  "exampleJoin =
     \<lparr>QueryPoolRequest.poolId = ''0xPool'',
      request = \<lparr>JoinPoolRequest.assets = [''0xA'', ''0xB''], maxAmountsIn = [BN 5, BN 6],
                 JoinPoolRequest.userData = [], JoinPoolRequest.fromInternalBalance = False\<rparr>,
      PoolArgs.sender = ''0xSender'', PoolArgs.recipient = ''0xRecipient''\<rparr>"

definition exampleJoin3 :: JoinPoolArgs where
  "exampleJoin3 =
     \<lparr>QueryPoolRequest.poolId = ''0xPool'',
      request = \<lparr>JoinPoolRequest.assets = [''0xA'', ''0xB'', ''0xC''],
                 maxAmountsIn = [BN 5, BN 6, BN 5],
                 JoinPoolRequest.userData = [], JoinPoolRequest.fromInternalBalance = False\<rparr>,
      PoolArgs.sender = ''0xSender'', PoolArgs.recipient = ''0xRecipient''\<rparr>"

definition exampleExit :: "nat \<Rightarrow> ExitPoolArgs" where
  "exampleExit k =
     \<lparr>QueryPoolRequest.poolId = ''0xPool'',
      request = \<lparr>ExitPoolRequest.assets = [''0xA'', ''0xB''], minAmountsOut = [BN 0, BN 0],
                 ExitPoolRequest.userData = replicate 31 0 @ [of_nat k, 0, 0],
                 ExitPoolRequest.toInternalBalance = False\<rparr>,
      PoolArgs.sender = ''0xSender'', PoolArgs.recipient = ''0xRecipient''\<rparr>"

definition exampleSwap :: SwapArgs where
  "exampleSwap =
     \<lparr>singleSwap = \<lparr>SingleSwap.poolId = ''0xPool'', kind = 0, assetIn = ''0xA'', assetOut = ''0xB'',
                      amount = BN 5, userData = []\<rparr>,
      funds = \<lparr>sender = ''0xSender'', fromInternalBalance = False,
                recipient = ''0xRecipient'', toInternalBalance = False\<rparr>,
      limit = BN 6, deadline = 1700000000\<rparr>"

definition exampleBatch :: QueryBatchSwapRequest where
  "exampleBatch =
     \<lparr>QueryBatchSwapRequest.kind = 0,
      swaps = [\<lparr>BatchSwapStep.poolId = ''0xPool'', assetInIndex = 0, assetOutIndex = 1,
                amount = BN 5, userData = []\<rparr>],
      assets = [''0xA'', ''0xB'']\<rparr>"


definition exampleQuery :: "nat list option \<Rightarrow> QueryContract" where
  "exampleQuery amounts =
     \<lparr>methods_queryJoin = (\<lambda>arguments. Inr (Some \<lparr>bptOut = 7, amountsIn = amounts\<rparr>)),
      methods_queryExit = (\<lambda>arguments. Inr (Some \<lparr>bptIn = 7, amountsOut = amounts\<rparr>))\<rparr>"

definition exampleVaultContract :: "PoolTokensResult option \<Rightarrow> int list option \<Rightarrow> VaultContract" where
  "exampleVaultContract pt deltas =
     \<lparr>methods_getPoolTokens = (\<lambda>pid. Inr pt),
      methods_queryBatchSwap = (\<lambda>arguments. Inr deltas)\<rparr>"

section \<open>Properties\<close>

subsection \<open>Auxiliary facts\<close>

lemma bindE_simps [simp]:
  "bindE (Inl e) f = Inl e" "bindE (Inr x) f = f x"
  by (simp_all add: bindE_def)

lemma thrown_simps [simp]:
  "thrown (Inl m) = Inl (Thrown m)" "thrown (Inr x) = Inr x"
  by (simp_all add: thrown_def)

lemma bindE_eq_Inr: "bindE m f = Inr y \<longleftrightarrow> (\<exists>x. m = Inr x \<and> f x = Inr y)"
  by (cases m) simp_all

lemma mapE_Inr:
  "mapE f xs = Inr ys \<Longrightarrow> length ys = length xs \<and> (\<forall>i<length xs. f (xs ! i) = Inr (ys ! i))"
proof (induction xs arbitrary: ys)
  case Nil
  then show ?case by simp
next
  case (Cons x xs)
  then obtain y ys' where y: "f x = Inr y" and ys': "mapE f xs = Inr ys'" and ys: "ys = y # ys'"
    by (auto split: sum.splits)
  from Cons.IH [OF ys'] y ys show ?case
    by (auto simp: nth_Cons split: nat.splits)
qed

lemma mapE_thrown_not_Error: "mapE (\<lambda>x. thrown (g x)) xs \<noteq> Inl (Error m)"
proof (induction xs)
  case Nil
  then show ?case by simp
next
  case (Cons x xs)
  then show ?case
    by (cases "g x"; cases "mapE (\<lambda>x. thrown (g x)) xs") simp_all
qed

lemma mapE_total:
  "(\<forall>x \<in> set xs. \<exists>y. f x = Inr y) \<Longrightarrow> \<exists>ys. mapE f xs = Inr ys"
  by (induction xs) auto

lemma findIndex_minus_one: "findIndex p xs = - 1 \<longleftrightarrow> (\<forall>x \<in> set xs. \<not> p x)"
proof -
  have "findIndex p xs = - 1 \<longleftrightarrow> find (\<lambda>i. p (xs ! i)) [0..<length xs] = None"
    by (simp add: findIndex_def split: option.splits)
  also have "\<dots> \<longleftrightarrow> (\<forall>x \<in> set xs. \<not> p x)"
    by (simp add: find_None_iff all_set_conv_all_nth)
  finally show ?thesis .
qed

lemma enumerate_map_upt: "map (\<lambda>(i, a). f i a) (enumerate n xs) = map (\<lambda>i. f (n + i) (xs ! i)) [0..<length xs]"
  by (induction xs arbitrary: n) (simp_all add: map_upt_Suc del: upt_Suc)

lemma word_of_bytes_append:
  "foldl (\<lambda>acc b. 256 * acc + unat (b::8 word)) a (replicate n 0) = 256 ^ n * a"
  by (induction n arbitrary: a) simp_all

lemma word_of_bytes_padded: "word_of_bytes (replicate n 0 @ [b]) = unat b"
  by (simp add: word_of_bytes_def word_of_bytes_append)

lemma bigNumberToUint256String_Inr:
  "bigNumberToUint256String v = Inr n \<Longrightarrow> v = BN (of_int n)"
  by (auto simp: bigNumberToUint256String_def split: BigNumber.splits if_splits)

lemma toU_numeral [simp]:
  "bigNumberToUint256String (BN 0) = Inr 0"
  "bigNumberToUint256String (BN 5) = Inr 5"
  "bigNumberToUint256String (BN 6) = Inr 6"
  by (simp_all add: bigNumberToUint256String_def)

lemma queryArgs_sel [simp]:
  "QueryPoolRequest.poolId (queryArgs req) = QueryPoolRequest.poolId req"
  "request (queryArgs req) = request req"
  "PoolArgs.sender (queryArgs req) = ZERO_ADDRESS"
  "PoolArgs.recipient (queryArgs req) = ZERO_ADDRESS"
  by (simp_all add: queryArgs_def)

subsection \<open>Facts about the sample data\<close>

lemma getVaultFunctionAbi_example:
  "getVaultFunctionAbi exampleVault ''joinPool'' = Inr \<lparr>type = ''function'', name = ''joinPool''\<rparr>"
  "getVaultFunctionAbi exampleVault ''exitPool'' = Inr \<lparr>type = ''function'', name = ''exitPool''\<rparr>"
  "getVaultFunctionAbi exampleVault ''swap'' = Inr \<lparr>type = ''function'', name = ''swap''\<rparr>"
  "getVaultFunctionAbi exampleVault ''batchSwap'' = Inr \<lparr>type = ''function'', name = ''batchSwap''\<rparr>"
  by (simp_all add: getVaultFunctionAbi_def exampleVault_def exampleAbi_def)

lemma decode_exampleExit:
  "k < 256 \<Longrightarrow> decodeParameter_uint256 (ExitPoolRequest.userData (request (exampleExit k))) = Inr k"
  by (simp add: decodeParameter_uint256_def exampleExit_def word_of_bytes_padded unat_of_nat)

lemma encodeJoinPool_example: "encodeJoinPool exampleVault exampleJoin = Inr ''0x:joinPool''"
  by (simp add: encodeJoinPool_def getVaultFunctionAbi_example encodeJoinPool_arguments_def exampleJoin_def)
     (simp add: exampleVault_def)

lemma encodeJoinPool_example3: "encodeJoinPool exampleVault exampleJoin3 = Inr ''0x:joinPool''"
  by (simp add: encodeJoinPool_def getVaultFunctionAbi_example encodeJoinPool_arguments_def exampleJoin3_def)
     (simp add: exampleVault_def)

lemma encodeExitPool_example: "encodeExitPool exampleVault (exampleExit k) = Inr ''0x:exitPool''"
  by (simp add: encodeExitPool_def getVaultFunctionAbi_example encodeExitPool_arguments_def exampleExit_def)
     (simp add: exampleVault_def)

lemma encodeSwap_arguments_example:
  "encodeSwap_arguments exampleSwap
     = Inr [AbiArray [AbiString ''0xPool'', AbiNumber 0, AbiString ''0xA'', AbiString ''0xB'',
                      AbiIntString 5, AbiBytes []],
            fundsTuple (SwapArgs.funds exampleSwap),
            AbiIntString 6,
            AbiNumber 1700000000]"
  by (simp add: encodeSwap_arguments_def exampleSwap_def)

lemma encodeSwap_example: "encodeSwap exampleVault exampleSwap = Inr ''0x:swap''"
  by (simp add: encodeSwap_def getVaultFunctionAbi_example encodeSwap_arguments_def exampleSwap_def)
     (simp add: exampleVault_def)



lemma queryJoinPool_arguments_example:
  "queryJoinPool_arguments (queryArgs exampleJoin)
     = Inr [AbiString ''0xPool'', AbiString ZERO_ADDRESS, AbiString ZERO_ADDRESS,
            AbiArray [AbiArray [AbiString ''0xA'', AbiString ''0xB''],
                      AbiArray [AbiIntString 5, AbiIntString 6], AbiBytes [], AbiBool False]]"
  by (simp add: queryJoinPool_arguments_def exampleJoin_def)

lemma queryExitPool_arguments_example:
  "queryExitPool_arguments (queryArgs (exampleExit k))
     = Inr [AbiString ''0xPool'', AbiString ZERO_ADDRESS, AbiString ZERO_ADDRESS,
            AbiArray [AbiArray [AbiString ''0xA'', AbiString ''0xB''],
                      AbiArray [AbiIntString 0, AbiIntString 0],
                      AbiBytes (replicate 31 0 @ [of_nat k, 0, 0]), AbiBool False]]"
  by (simp add: queryExitPool_arguments_def exampleExit_def)

lemma queryBatchSwap_arguments_example:
  "queryBatchSwap_arguments
           \<lparr>QueryBatchSwapRequest.kind = QueryBatchSwapRequest.kind exampleBatch, swaps = swaps exampleBatch,
            assets = QueryBatchSwapRequest.assets exampleBatch,
            QueryBatchSwapArgs.funds = queryFunds\<rparr>
     = Inr [AbiNumber 0,
            AbiArray [AbiObject [(''poolId'', AbiString ''0xPool''), (''assetInIndex'', AbiNumber 0),
                                 (''assetOutIndex'', AbiNumber 1), (''amount'', AbiIntString 5),
                                 (''userData'', AbiBytes [])]],
            AbiArray [AbiString ''0xA'', AbiString ''0xB''],
            fundsObject queryFunds]"
  by (simp add: queryBatchSwap_arguments_def querySwapObject_def exampleBatch_def)

subsection \<open>\<^verbatim>\<open>queryJoinPool\<close>: used and unused input\<close>

lemma queryJoinPool_Inr:
  assumes "queryJoinPool this req = Inr res"
  shows "\<exists>arguments (r :: JoinPoolResult) a.
           queryJoinPool_arguments (queryArgs req) = Inr arguments
         \<and> amountsIn r = Some a
         \<and> length a = length (JoinPoolRequest.assets (request req))
         \<and> res = \<lparr>QueryJoinPoolResponse.liquidity = bn_of_uint (bptOut r),
                     usedInput = map bn_of_uint a,
                     unusedInput = map (\<lambda>(i, x). bn_minus x (bn_at (map bn_of_uint a) i))
                                       (enumerate 0 (maxAmountsIn (request req)))\<rparr>"
  using assms unfolding queryJoinPool_def bindE_def thrown_def Let_def
  by (auto split: sum.splits option.splits if_splits)

text \<open>
  C1 (as amended). For every \<^verbatim>\<open>queryJoinPool\<close> call that returns a result (so its response
  passed validation) and whose request has a \<^verbatim>\<open>maxAmountsIn\<close> entry for every asset, the
  returned arrays have an entry for every asset index \<open>i\<close> and
  \<open>usedInput[i] + unusedInput[i]\<close> equals \<open>maxAmountsIn[i]\<close> exactly.
\<close>

theorem queryJoinPool_used_plus_unused:
  assumes "queryJoinPool this req = Inr res"
    and "length (JoinPoolRequest.assets (request req)) \<le> length (maxAmountsIn (request req))"
    and "i < length (JoinPoolRequest.assets (request req))"
  shows "i < length (usedInput res) \<and> i < length (unusedInput res)
       \<and> bn_isEqualTo (bn_plus (usedInput res ! i) (unusedInput res ! i))
                       (maxAmountsIn (request req) ! i)"
proof -
  from queryJoinPool_Inr [OF assms(1)] obtain arguments and r :: JoinPoolResult and a where
        args: "queryJoinPool_arguments (queryArgs req) = Inr arguments"
    and a: "amountsIn r = Some a"
    and len: "length a = length (JoinPoolRequest.assets (request req))"
    and res: "res = \<lparr>QueryJoinPoolResponse.liquidity = bn_of_uint (bptOut r),
                     usedInput = map bn_of_uint a,
                     unusedInput = map (\<lambda>(i, x). bn_minus x (bn_at (map bn_of_uint a) i))
                                       (enumerate 0 (maxAmountsIn (request req)))\<rparr>"
    by blast
  from args obtain amounts where
    "mapE bigNumberToUint256String (maxAmountsIn (request req)) = Inr amounts"
    by (auto simp: queryJoinPool_arguments_def bindE_eq_Inr)
  from mapE_Inr [OF this] assms(2,3)
  have "bigNumberToUint256String (maxAmountsIn (request req) ! i) = Inr (amounts ! i)"
    by simp
  then have m: "maxAmountsIn (request req) ! i = BN (of_int (amounts ! i))"
    by (rule bigNumberToUint256String_Inr)
  from assms(2,3) len have ia: "i < length a" and im: "i < length (maxAmountsIn (request req))"
    by simp_all
  from res ia im have used: "usedInput res ! i = BN (of_nat (a ! i))"
    and unused: "unusedInput res ! i
                   = bn_minus (maxAmountsIn (request req) ! i) (BN (of_nat (a ! i)))"
    by (simp_all add: nth_enumerate_eq bn_at_def bn_of_uint_def)
  from res ia im used unused m show ?thesis
    by (simp add: bn_minus_def bn_isEqualTo_def)
qed

theorem queryJoinPool_used_plus_unused_witness:
  "queryJoinPool (exampleVault\<lparr>getQueryContract := Inr (exampleQuery (Some [1, 2]))\<rparr>) exampleJoin
     = Inr \<lparr>QueryJoinPoolResponse.liquidity = BN 7, usedInput = [BN 1, BN 2], unusedInput = [BN 4, BN 4]\<rparr>
   \<and> bn_isEqualTo (bn_plus (BN 2) (BN 4)) (maxAmountsIn (request exampleJoin) ! 1)"
proof -
  have run: "queryJoinPool (exampleVault\<lparr>getQueryContract := Inr (exampleQuery (Some [1, 2]))\<rparr>) exampleJoin
     = Inr \<lparr>QueryJoinPoolResponse.liquidity = BN 7, usedInput = [BN 1, BN 2], unusedInput = [BN 4, BN 4]\<rparr>"
    by (simp add: queryJoinPool_def queryJoinPool_arguments_example exampleQuery_def)
       (simp add: exampleJoin_def bn_of_uint_def bn_at_def bn_minus_def enumerate_eq_zip upt_rec)
  from queryJoinPool_used_plus_unused [OF run, of 1] run show ?thesis
    by (simp add: exampleJoin_def)
qed

text \<open>
  C1 as stated fails when \<^verbatim>\<open>maxAmountsIn\<close> is shorter than \<^verbatim>\<open>assets\<close>: the response below
  has one amount per asset and passes validation, but \<^verbatim>\<open>unusedInput\<close> is mapped from
  \<^verbatim>\<open>maxAmountsIn\<close> and has no entry for the second asset, so the sum at index 1 is NaN.
\<close>

theorem queryJoinPool_short_maxAmountsIn_counterexample:
  "queryJoinPool (exampleVault\<lparr>getQueryContract := Inr (exampleQuery (Some [1, 2]))\<rparr>)
       (exampleJoin\<lparr>request := (request exampleJoin)\<lparr>maxAmountsIn := [BN 5]\<rparr>\<rparr>)
     = Inr \<lparr>QueryJoinPoolResponse.liquidity = BN 7, usedInput = [BN 1, BN 2], unusedInput = [BN 4]\<rparr>
   \<and> JoinPoolRequest.assets (request (exampleJoin\<lparr>request := (request exampleJoin)\<lparr>maxAmountsIn := [BN 5]\<rparr>\<rparr>))
     = [''0xA'', ''0xB'']
   \<and> \<not> 1 < length [BN 4]
   \<and> \<not> bn_isEqualTo (bn_plus (bn_at [BN 1, BN 2] 1) (bn_at [BN 4] 1)) (bn_at [BN 5] 1)"
  by (simp add: queryJoinPool_def queryJoinPool_arguments_def exampleQuery_def exampleVault_def)
     (simp add: exampleJoin_def bn_of_uint_def bn_at_def bn_minus_def bn_isEqualTo_def enumerate_eq_zip upt_rec)

subsection \<open>Insertion offsets of \<^verbatim>\<open>getJoinPoolZap\<close>\<close>

text \<open>
  C2. With balance insertion enabled and \<open>N\<close> assets, \<^verbatim>\<open>getJoinPoolZap\<close> succeeds exactly when
  the encoding of the call succeeds, and then returns the encoded call with one token
  insertion per asset, in the order of the request: asset \<open>i\<close> is paired with the byte
  offset of word \<open>9 + N + 1 + i\<close>, that is \<open>32 * (9 + N + 1 + i)\<close> bytes past the 4-byte
  function selector.
\<close>

theorem getJoinPoolZap_insert_offsets:
  assumes "JoinPoolZapRequest.insertBalance req"
  shows "getJoinPoolZap this req =
           bindE (encodeJoinPool this (join req)) (\<lambda>d.
             Inr \<lparr>target = vaultAddress (config this), value = ''0'', data = d,
                  tokens =
                    map (\<lambda>i. \<lparr>StepToken.token = JoinPoolRequest.assets (request (join req)) ! i,
                               index = 4 + 32 * (9 + length (JoinPoolRequest.assets (request (join req))) + 1 + i)\<rparr>)
                        [0..<length (JoinPoolRequest.assets (request (join req)))]\<rparr>)"
  using assms
  by (simp add: getJoinPoolZap_def Let_def getInsertIndex_def enumerate_map_upt)

theorem getJoinPoolZap_insert_offsets_witness:
  "getJoinPoolZap exampleVault \<lparr>join = exampleJoin, insertBalance = True\<rparr>
     = Inr \<lparr>target = ''0xVault'', value = ''0'', data = ''0x:joinPool'',
            tokens = [\<lparr>StepToken.token = ''0xA'', index = 388\<rparr>,
                      \<lparr>StepToken.token = ''0xB'', index = 420\<rparr>]\<rparr>
   \<and> getJoinPoolZap exampleVault \<lparr>join = exampleJoin3, insertBalance = True\<rparr>
     = Inr \<lparr>target = ''0xVault'', value = ''0'', data = ''0x:joinPool'',
            tokens = [\<lparr>StepToken.token = ''0xA'', index = 420\<rparr>,
                      \<lparr>StepToken.token = ''0xB'', index = 452\<rparr>,
                      \<lparr>StepToken.token = ''0xC'', index = 484\<rparr>]\<rparr>
   \<and> getJoinPoolZap exampleVault
         \<lparr>join = exampleJoin\<lparr>request := (request exampleJoin)\<lparr>maxAmountsIn := [BN (- 5), BN 6]\<rparr>\<rparr>,
          insertBalance = True\<rparr>
     = Inl (Thrown ''bigNumberToUint256String'')"
proof -
  have cfg: "vaultAddress (config exampleVault) = ''0xVault''"
    by (simp add: exampleVault_def)
  have a2: "JoinPoolRequest.assets (request exampleJoin) = [''0xA'', ''0xB'']"
    by (simp add: exampleJoin_def)
  have a3: "JoinPoolRequest.assets (request exampleJoin3) = [''0xA'', ''0xB'', ''0xC'']"
    by (simp add: exampleJoin3_def)
  have bad: "encodeJoinPool exampleVault
               (exampleJoin\<lparr>request := (request exampleJoin)\<lparr>maxAmountsIn := [BN (- 5), BN 6]\<rparr>\<rparr>)
             = Inl (Thrown ''bigNumberToUint256String'')"
    by (simp add: encodeJoinPool_def getVaultFunctionAbi_example encodeJoinPool_arguments_def
        exampleJoin_def bigNumberToUint256String_def)
  show ?thesis
    using getJoinPoolZap_insert_offsets [of "\<lparr>join = exampleJoin, insertBalance = True\<rparr>" exampleVault]
          getJoinPoolZap_insert_offsets [of "\<lparr>join = exampleJoin3, insertBalance = True\<rparr>" exampleVault]
          getJoinPoolZap_insert_offsets
            [of "\<lparr>join = exampleJoin\<lparr>request := (request exampleJoin)\<lparr>maxAmountsIn := [BN (- 5), BN 6]\<rparr>\<rparr>,
                  insertBalance = True\<rparr>" exampleVault]
    by (simp add: encodeJoinPool_example encodeJoinPool_example3 bad cfg a2 a3 upt_rec)
qed

subsection \<open>Exit kinds of \<^verbatim>\<open>getExitPoolZap\<close>\<close>

text \<open>
  C3. With balance insertion enabled, the insertion word of \<^verbatim>\<open>getExitPoolZap\<close> is chosen by
  the unsigned integer \<open>k\<close> in the leading word of \<^verbatim>\<open>userData\<close>: for \<open>k = 0\<close> and \<open>k = 1\<close> the
  pool token is inserted one word after the start of \<^verbatim>\<open>userData\<close>, for \<open>k = 2\<close> two words
  after it, and any other \<open>k\<close> fails with the unsupported-exit-kind error. The first word
  of \<^verbatim>\<open>userData\<close> is word \<open>9 + N + 1 + M + 1\<close> of the call, for \<open>N\<close> assets and \<open>M\<close> minimum
  amounts.
\<close>

theorem getExitPoolZap_exit_kind:
  assumes "ExitPoolZapRequest.insertBalance req"
    and "decodeParameter_uint256 (ExitPoolRequest.userData (request (exit req))) = Inr k"
  shows "getExitPoolZapTokens req =
           (if k = 0 \<or> k = 1 then
              Inr [\<lparr>StepToken.token = poolAddress req,
                    index = getInsertIndex
                      (9 + length (ExitPoolRequest.assets (request (exit req))) + 1
                         + length (minAmountsOut (request (exit req))) + 1 + 1)\<rparr>]
            else if k = 2 then
              Inr [\<lparr>StepToken.token = poolAddress req,
                    index = getInsertIndex
                      (9 + length (ExitPoolRequest.assets (request (exit req))) + 1
                         + length (minAmountsOut (request (exit req))) + 1 + 2)\<rparr>]
            else Inl (UnsupportedExitKind k))
       \<and> getExitPoolZap this req =
           bindE (encodeExitPool this (exit req)) (\<lambda>d.
             if k = 0 \<or> k = 1 then
               Inr \<lparr>target = vaultAddress (config this), value = ''0'', data = d,
                    tokens = [\<lparr>StepToken.token = poolAddress req,
                      index = getInsertIndex
                        (9 + length (ExitPoolRequest.assets (request (exit req))) + 1
                           + length (minAmountsOut (request (exit req))) + 1 + 1)\<rparr>]\<rparr>
             else if k = 2 then
               Inr \<lparr>target = vaultAddress (config this), value = ''0'', data = d,
                    tokens = [\<lparr>StepToken.token = poolAddress req,
                      index = getInsertIndex
                        (9 + length (ExitPoolRequest.assets (request (exit req))) + 1
                           + length (minAmountsOut (request (exit req))) + 1 + 2)\<rparr>]\<rparr>
             else Inl (UnsupportedExitKind k))"
proof -
  have tokens: "getExitPoolZapTokens req =
           (if k = 0 \<or> k = 1 then
              Inr [\<lparr>StepToken.token = poolAddress req,
                    index = getInsertIndex
                      (9 + length (ExitPoolRequest.assets (request (exit req))) + 1
                         + length (minAmountsOut (request (exit req))) + 1 + 1)\<rparr>]
            else if k = 2 then
              Inr [\<lparr>StepToken.token = poolAddress req,
                    index = getInsertIndex
                      (9 + length (ExitPoolRequest.assets (request (exit req))) + 1
                         + length (minAmountsOut (request (exit req))) + 1 + 2)\<rparr>]
            else Inl (UnsupportedExitKind k))"
    using assms
    by (simp add: getExitPoolZapTokens_def Let_def EXACT_BPT_IN_FOR_TOKENS_OUT_def
        EXACT_BPT_IN_FOR_ONE_TOKEN_OUT_def BPT_IN_FOR_EXACT_TOKENS_OUT_def)
  show ?thesis
    unfolding getExitPoolZap_def tokens
    by (cases "encodeExitPool this (exit req)") (simp_all add: tokens)
qed

theorem getExitPoolZap_exit_kind_witness:
  "getExitPoolZap exampleVault \<lparr>exit = exampleExit 0, poolAddress = ''0xBPT'', insertBalance = True\<rparr>
     = Inr \<lparr>target = ''0xVault'', value = ''0'', data = ''0x:exitPool'',
            tokens = [\<lparr>StepToken.token = ''0xBPT'', index = getInsertIndex (15 + 1)\<rparr>]\<rparr>
   \<and> getExitPoolZap exampleVault \<lparr>exit = exampleExit 2, poolAddress = ''0xBPT'', insertBalance = True\<rparr>
     = Inr \<lparr>target = ''0xVault'', value = ''0'', data = ''0x:exitPool'',
            tokens = [\<lparr>StepToken.token = ''0xBPT'', index = getInsertIndex (15 + 2)\<rparr>]\<rparr>
   \<and> getExitPoolZap exampleVault \<lparr>exit = exampleExit 99, poolAddress = ''0xBPT'', insertBalance = True\<rparr>
     = Inl (UnsupportedExitKind 99)"
proof -
  have len: "length (ExitPoolRequest.assets (request (exampleExit k))) = 2"
       "length (minAmountsOut (request (exampleExit k))) = 2" for k
    by (simp_all add: exampleExit_def)
  have cfg: "vaultAddress (config exampleVault) = ''0xVault''"
    by (simp add: exampleVault_def)
  show ?thesis
    using getExitPoolZap_exit_kind [of "\<lparr>exit = exampleExit 0, poolAddress = ''0xBPT'', insertBalance = True\<rparr>" 0 exampleVault]
          getExitPoolZap_exit_kind [of "\<lparr>exit = exampleExit 2, poolAddress = ''0xBPT'', insertBalance = True\<rparr>" 2 exampleVault]
          getExitPoolZap_exit_kind [of "\<lparr>exit = exampleExit 99, poolAddress = ''0xBPT'', insertBalance = True\<rparr>" 99 exampleVault]
    by (simp add: decode_exampleExit encodeExitPool_example len cfg)
qed

subsection \<open>Number strings of \<^verbatim>\<open>encodeSwap\<close> and \<^verbatim>\<open>encodeBatchSwap\<close>\<close>





subsection \<open>Malformed responses of the queries\<close>

text \<open>
  C5. Whenever \<^verbatim>\<open>queryJoinPool\<close>, \<^verbatim>\<open>queryExitPool\<close> or \<^verbatim>\<open>queryBatchSwap\<close> receives a response
  whose per-asset amounts array is missing, is not an array, or differs in length from
  the assets of the request, the operation fails with the error \<^verbatim>\<open>Invalid result\<close>; it
  returns no value.
\<close>

theorem invalid_result_is_terminal:
  "(getQueryContract this = Inr query
      \<and> queryJoinPool_arguments (queryArgs jreq) = Inr jarguments
      \<and> methods_queryJoin query jarguments = Inr jresult
      \<and> \<not> (\<exists>r a. jresult = Some r \<and> amountsIn r = Some a
                  \<and> length a = length (JoinPoolRequest.assets (request jreq)))
    \<longrightarrow> queryJoinPool this jreq = Inl (Error ''Invalid result''))
   \<and> (getQueryContract this = Inr query
      \<and> queryExitPool_arguments (queryArgs ereq) = Inr earguments
      \<and> methods_queryExit query earguments = Inr eresult
      \<and> \<not> (\<exists>r a. eresult = Some r \<and> amountsOut r = Some a
                  \<and> length a = length (ExitPoolRequest.assets (request ereq)))
    \<longrightarrow> queryExitPool this ereq = Inl (Error ''Invalid result''))
   \<and> (getVaultContract this = Inr vault
      \<and> queryBatchSwap_arguments
           \<lparr>QueryBatchSwapRequest.kind = QueryBatchSwapRequest.kind breq, swaps = swaps breq,
            assets = QueryBatchSwapRequest.assets breq,
            QueryBatchSwapArgs.funds = queryFunds\<rparr> = Inr barguments
      \<and> methods_queryBatchSwap vault barguments = Inr bresult
      \<and> \<not> (\<exists>a. bresult = Some a \<and> length a = length (QueryBatchSwapRequest.assets breq))
    \<longrightarrow> queryBatchSwap this breq = Inl (Error ''Invalid result''))"
proof (intro conjI impI)
  assume "getQueryContract this = Inr query
      \<and> queryJoinPool_arguments (queryArgs jreq) = Inr jarguments
      \<and> methods_queryJoin query jarguments = Inr jresult
      \<and> \<not> (\<exists>r a. jresult = Some r \<and> amountsIn r = Some a
                  \<and> length a = length (JoinPoolRequest.assets (request jreq)))"
  then show "queryJoinPool this jreq = Inl (Error ''Invalid result'')"
    by (auto simp: queryJoinPool_def split: option.splits)
next
  assume a: "getQueryContract this = Inr query
      \<and> queryExitPool_arguments (queryArgs ereq) = Inr earguments
      \<and> methods_queryExit query earguments = Inr eresult
      \<and> \<not> (\<exists>r a. eresult = Some r \<and> amountsOut r = Some a
                  \<and> length a = length (ExitPoolRequest.assets (request ereq)))"
  then obtain logged where "mapE bigNumberToUint256String (minAmountsOut (request (queryArgs ereq))) = Inr logged"
    by (auto simp: queryExitPool_arguments_def bindE_eq_Inr)
  with a show "queryExitPool this ereq = Inl (Error ''Invalid result'')"
    by (auto simp: queryExitPool_def split: option.splits)
next
  assume "getVaultContract this = Inr vault
      \<and> queryBatchSwap_arguments
           \<lparr>QueryBatchSwapRequest.kind = QueryBatchSwapRequest.kind breq, swaps = swaps breq,
            assets = QueryBatchSwapRequest.assets breq,
            QueryBatchSwapArgs.funds = queryFunds\<rparr> = Inr barguments
      \<and> methods_queryBatchSwap vault barguments = Inr bresult
      \<and> \<not> (\<exists>a. bresult = Some a \<and> length a = length (QueryBatchSwapRequest.assets breq))"
  then show "queryBatchSwap this breq = Inl (Error ''Invalid result'')"
    by (auto simp: queryBatchSwap_def split: option.splits)
qed

theorem invalid_result_is_terminal_witness:
  "queryJoinPool (exampleVault\<lparr>getQueryContract := Inr (exampleQuery (Some [1]))\<rparr>) exampleJoin
     = Inl (Error ''Invalid result'')
   \<and> queryExitPool (exampleVault\<lparr>getQueryContract := Inr (exampleQuery None)\<rparr>) (exampleExit 2)
     = Inl (Error ''Invalid result'')
   \<and> queryBatchSwap (exampleVault\<lparr>getVaultContract := Inr (exampleVaultContract None (Some [1, - 1, 0]))\<rparr>) exampleBatch
     = Inl (Error ''Invalid result'')"
proof -
  have j: "length (JoinPoolRequest.assets (request exampleJoin)) = 2"
    by (simp add: exampleJoin_def)
  have e: "length (ExitPoolRequest.assets (request (exampleExit 2))) = 2"
    by (simp add: exampleExit_def)
  have b: "length (QueryBatchSwapRequest.assets exampleBatch) = 2"
    by (simp add: exampleBatch_def)
  show ?thesis
    using invalid_result_is_terminal
      [of "exampleVault\<lparr>getQueryContract := Inr (exampleQuery (Some [1]))\<rparr>" "exampleQuery (Some [1])"
          exampleJoin _ "Some \<lparr>bptOut = 7, amountsIn = Some [1]\<rparr>",
       THEN conjunct1]
     invalid_result_is_terminal
      [of "exampleVault\<lparr>getQueryContract := Inr (exampleQuery None)\<rparr>" "exampleQuery None"
          _ _ _ "exampleExit 2" _ "Some \<lparr>bptIn = 7, amountsOut = None\<rparr>",
       THEN conjunct2, THEN conjunct1]
     invalid_result_is_terminal
      [of "exampleVault\<lparr>getVaultContract := Inr (exampleVaultContract None (Some [1, - 1, 0]))\<rparr>" _ _ _ _ _ _ _
          "exampleVaultContract None (Some [1, - 1, 0])" exampleBatch _ "Some [1, - 1, 0]",
       THEN conjunct2, THEN conjunct2]
    by (simp add: queryJoinPool_arguments_example queryExitPool_arguments_example
        queryBatchSwap_arguments_example exampleQuery_def exampleVaultContract_def j e b)
qed

subsection \<open>\<^verbatim>\<open>getPoolTokens\<close>\<close>

lemma mapE_enumerate_balances:
  "n + length ts = length bs \<Longrightarrow>
   mapE (\<lambda>(i, tk). bindE (thrown (g tk)) (\<lambda>a.
            Inr \<lparr>PoolTokenBalance.token = a, balance = bn_index bs i\<rparr>)) (enumerate n ts)
   = bindE (mapE (\<lambda>tk. thrown (g tk)) ts) (\<lambda>as.
       Inr (map2 (\<lambda>a b. \<lparr>PoolTokenBalance.token = a, balance = bn_of_uint b\<rparr>) as (drop n bs)))"
proof (induction ts arbitrary: n)
  case Nil
  then show ?case by simp
next
  case (Cons t ts)
  from Cons.prems have n: "n < length bs" and step: "Suc n + length ts = length bs"
    by simp_all
  from n have drop: "drop n bs = bs ! n # drop (Suc n) bs"
    by (simp add: Cons_nth_drop_Suc)
  show ?case
  proof (cases "g t")
    case (Inl m)
    then show ?thesis by simp
  next
    case (Inr a)
    show ?thesis
    proof (cases "mapE (\<lambda>tk. thrown (g tk)) ts")
      case l: (Inl e)
      with Inr Cons.IH [OF step] show ?thesis by simp
    next
      case r: (Inr as)
      with Inr Cons.IH [OF step] n drop show ?thesis
        by (simp add: bn_index_def)
    qed
  qed
qed

lemma getPoolTokens_valid:
  assumes "getVaultContract this = Inr vault"
    and "methods_getPoolTokens vault pid = Inr (Some \<lparr>PoolTokensResult.tokens = Some ts, balances = Some bs\<rparr>)"
    and "length ts = length bs"
  shows "getPoolTokens this pid =
           bindE (mapE (\<lambda>tk. thrown (getAddress this tk)) ts) (\<lambda>as.
             Inr (map2 (\<lambda>a b. \<lparr>PoolTokenBalance.token = a, balance = bn_of_uint b\<rparr>) as bs))"
  using assms mapE_enumerate_balances [of 0 ts bs "getAddress this"]
  by (simp add: getPoolTokens_def)

lemma getPoolTokens_invalid:
  assumes "getVaultContract this = Inr vault"
    and "methods_getPoolTokens vault pid = Inr result"
    and "\<not> (\<exists>ts bs. result = Some \<lparr>PoolTokensResult.tokens = Some ts, balances = Some bs\<rparr>
               \<and> length ts = length bs)"
  shows "getPoolTokens this pid = Inl (Error ''Invalid result'')"
proof (cases result)
  case None
  with assms show ?thesis by (simp add: getPoolTokens_def)
next
  case (Some r)
  obtain t b where r: "r = \<lparr>PoolTokensResult.tokens = t, balances = b\<rparr>"
    by (cases r) simp
  with Some assms show ?thesis
    by (cases t; cases b) (auto simp: getPoolTokens_def)
qed

text \<open>
  C6. Given a response, \<^verbatim>\<open>getPoolTokens\<close> fails with \<^verbatim>\<open>Invalid result\<close> exactly when the
  response has no tokens array, no balances array, or arrays of different lengths (two
  empty arrays are accepted). When it succeeds it returns one balance per token, in the
  order of the response, each address being the result of \<^verbatim>\<open>getAddress\<close> on the token; and
  it succeeds whenever the shape is right and \<^verbatim>\<open>getAddress\<close> accepts every token.
\<close>

theorem getPoolTokens_shape:
  assumes "getVaultContract this = Inr vault"
    and "methods_getPoolTokens vault pid = Inr result"
  shows "(getPoolTokens this pid = Inl (Error ''Invalid result'')
            \<longleftrightarrow> \<not> (\<exists>ts bs. result = Some \<lparr>PoolTokensResult.tokens = Some ts, balances = Some bs\<rparr>
                     \<and> length ts = length bs))
       \<and> (\<forall>out. getPoolTokens this pid = Inr out \<longrightarrow>
            (\<exists>ts bs. result = Some \<lparr>PoolTokensResult.tokens = Some ts, balances = Some bs\<rparr>
               \<and> length out = length ts \<and> length bs = length ts
               \<and> (\<forall>i<length ts. getAddress this (ts ! i) = Inr (PoolTokenBalance.token (out ! i))
                                 \<and> balance (out ! i) = bn_of_uint (bs ! i))))
       \<and> (\<forall>ts bs. result = Some \<lparr>PoolTokensResult.tokens = Some ts, balances = Some bs\<rparr>
               \<and> length ts = length bs \<and> (\<forall>t \<in> set ts. \<exists>a. getAddress this t = Inr a)
             \<longrightarrow> (\<exists>out. getPoolTokens this pid = Inr out))"
proof (intro conjI allI impI)
  show "getPoolTokens this pid = Inl (Error ''Invalid result'')
            \<longleftrightarrow> \<not> (\<exists>ts bs. result = Some \<lparr>PoolTokensResult.tokens = Some ts, balances = Some bs\<rparr>
                     \<and> length ts = length bs)"
  proof
    assume failed: "getPoolTokens this pid = Inl (Error ''Invalid result'')"
    show "\<not> (\<exists>ts bs. result = Some \<lparr>PoolTokensResult.tokens = Some ts, balances = Some bs\<rparr>
                     \<and> length ts = length bs)"
    proof
      assume "\<exists>ts bs. result = Some \<lparr>PoolTokensResult.tokens = Some ts, balances = Some bs\<rparr>
                     \<and> length ts = length bs"
      then obtain ts bs where "result = Some \<lparr>PoolTokensResult.tokens = Some ts, balances = Some bs\<rparr>"
        and "length ts = length bs" by blast
      with assms have "getPoolTokens this pid =
           bindE (mapE (\<lambda>tk. thrown (getAddress this tk)) ts) (\<lambda>as.
             Inr (map2 (\<lambda>a b. \<lparr>PoolTokenBalance.token = a, balance = bn_of_uint b\<rparr>) as bs))"
        by (simp add: getPoolTokens_valid)
      with failed mapE_thrown_not_Error [of "getAddress this" ts "''Invalid result''"]
      show False
        by (cases "mapE (\<lambda>tk. thrown (getAddress this tk)) ts") simp_all
    qed
  next
    assume "\<not> (\<exists>ts bs. result = Some \<lparr>PoolTokensResult.tokens = Some ts, balances = Some bs\<rparr>
                     \<and> length ts = length bs)"
    with assms show "getPoolTokens this pid = Inl (Error ''Invalid result'')"
      by (rule getPoolTokens_invalid)
  qed
next
  fix out
  assume out: "getPoolTokens this pid = Inr out"
  have "\<exists>ts bs. result = Some \<lparr>PoolTokensResult.tokens = Some ts, balances = Some bs\<rparr>
                     \<and> length ts = length bs"
  proof (rule ccontr)
    assume "\<not> ?thesis"
    with assms have "getPoolTokens this pid = Inl (Error ''Invalid result'')"
      by (rule getPoolTokens_invalid)
    with out show False by simp
  qed
  then obtain ts bs where res: "result = Some \<lparr>PoolTokensResult.tokens = Some ts, balances = Some bs\<rparr>"
    and len: "length ts = length bs" by blast
  with assms out obtain as where as: "mapE (\<lambda>tk. thrown (getAddress this tk)) ts = Inr as"
    and o: "out = map2 (\<lambda>a b. \<lparr>PoolTokenBalance.token = a, balance = bn_of_uint b\<rparr>) as bs"
    by (auto simp: getPoolTokens_valid bindE_eq_Inr)
  from mapE_Inr [OF as] have las: "length as = length ts"
    and el: "\<forall>i<length ts. thrown (getAddress this (ts ! i)) = Inr (as ! i)" by simp_all
  have "\<forall>i<length ts. getAddress this (ts ! i) = Inr (PoolTokenBalance.token (out ! i))
                                 \<and> balance (out ! i) = bn_of_uint (bs ! i)"
  proof (intro allI impI)
    fix i assume i: "i < length ts"
    with el have "thrown (getAddress this (ts ! i)) = Inr (as ! i)" by simp
    then have "getAddress this (ts ! i) = Inr (as ! i)"
      by (cases "getAddress this (ts ! i)") simp_all
    with i las len o show "getAddress this (ts ! i) = Inr (PoolTokenBalance.token (out ! i))
                                 \<and> balance (out ! i) = bn_of_uint (bs ! i)"
      by simp
  qed
  with res len las o
  show "\<exists>ts bs. result = Some \<lparr>PoolTokensResult.tokens = Some ts, balances = Some bs\<rparr>
               \<and> length out = length ts \<and> length bs = length ts
               \<and> (\<forall>i<length ts. getAddress this (ts ! i) = Inr (PoolTokenBalance.token (out ! i))
                                 \<and> balance (out ! i) = bn_of_uint (bs ! i))"
    by simp
next
  fix ts bs
  assume a: "result = Some \<lparr>PoolTokensResult.tokens = Some ts, balances = Some bs\<rparr>
               \<and> length ts = length bs \<and> (\<forall>t \<in> set ts. \<exists>a. getAddress this t = Inr a)"
  then have "\<forall>t \<in> set ts. \<exists>a. thrown (getAddress this t) = Inr a"
    by auto
  then obtain as where "mapE (\<lambda>tk. thrown (getAddress this tk)) ts = Inr as"
    using mapE_total [of ts "\<lambda>tk. thrown (getAddress this tk)"] by blast
  with a assms show "\<exists>out. getPoolTokens this pid = Inr out"
    by (simp add: getPoolTokens_valid)
qed

theorem getPoolTokens_shape_witness:
  "getPoolTokens (exampleVault\<lparr>getVaultContract := Inr (exampleVaultContract
       (Some \<lparr>PoolTokensResult.tokens = Some [''0xb'', ''0xa''], balances = Some [10, 20]\<rparr>) None)\<rparr>) ''0xPool''
     = Inr [\<lparr>PoolTokenBalance.token = ''checksummed:0xb'', balance = BN 10\<rparr>,
            \<lparr>PoolTokenBalance.token = ''checksummed:0xa'', balance = BN 20\<rparr>]
   \<and> getPoolTokens (exampleVault\<lparr>getVaultContract := Inr (exampleVaultContract
       (Some \<lparr>PoolTokensResult.tokens = Some [], balances = Some []\<rparr>) None)\<rparr>) ''0xPool''
     = Inr []
   \<and> getPoolTokens (exampleVault\<lparr>getVaultContract := Inr (exampleVaultContract
       (Some \<lparr>PoolTokensResult.tokens = Some [''0xb'', ''0xa''], balances = Some [10]\<rparr>) None)\<rparr>) ''0xPool''
     = Inl (Error ''Invalid result'')"
proof -
  let ?v = "\<lambda>r. exampleVault\<lparr>getVaultContract := Inr (exampleVaultContract r None)\<rparr>"
  let ?bad = "Some \<lparr>PoolTokensResult.tokens = Some [''0xb'', ''0xa''], balances = Some [10]\<rparr>"
  have "getPoolTokens (?v ?bad) ''0xPool'' = Inl (Error ''Invalid result'')"
    using getPoolTokens_shape [of "?v ?bad" "exampleVaultContract ?bad None" "''0xPool''" ?bad, THEN conjunct1]
    by (simp add: exampleVaultContract_def)
  moreover have "getPoolTokens (?v (Some \<lparr>PoolTokensResult.tokens = Some [''0xb'', ''0xa''], balances = Some [10, 20]\<rparr>)) ''0xPool''
     = Inr [\<lparr>PoolTokenBalance.token = ''checksummed:0xb'', balance = BN 10\<rparr>,
            \<lparr>PoolTokenBalance.token = ''checksummed:0xa'', balance = BN 20\<rparr>]"
    by (simp add: getPoolTokens_def exampleVaultContract_def exampleVault_def bn_index_def bn_of_uint_def)
  moreover have "getPoolTokens (?v (Some \<lparr>PoolTokensResult.tokens = Some [], balances = Some []\<rparr>)) ''0xPool'' = Inr []"
    by (simp add: getPoolTokens_def exampleVaultContract_def)
  ultimately show ?thesis by simp
qed

subsection \<open>Sender and recipient of the queries\<close>

lemma queryJoinPool_arguments_zero:
  "queryJoinPool_arguments (queryArgs req) = Inr arguments \<Longrightarrow> zeroParties arguments"
  by (auto simp: queryJoinPool_arguments_def bindE_eq_Inr zeroParties_def)

lemma queryExitPool_arguments_zero:
  "queryExitPool_arguments (queryArgs req) = Inr arguments \<Longrightarrow> zeroParties arguments"
  by (auto simp: queryExitPool_arguments_def bindE_eq_Inr zeroParties_def)

text \<open>
  C7. \<^verbatim>\<open>queryJoinPool\<close> and \<^verbatim>\<open>queryExitPool\<close> send the zero address as sender and as
  recipient, whatever the request carries. Each operation is the following: obtain the
  query contract, convert the amounts, call the contract once with the pool id, the zero
  address, the zero address and the request tuple, and validate the reply; the request
  has no part in the sender and recipient sent. Hence a query contract that rejects
  every call with another sender or recipient gives the same outcome for every request.
\<close>

theorem query_parties_zero:
  "queryJoinPool this jreq =
     bindE (thrown (getQueryContract this)) (\<lambda>query.
     bindE (mapE bigNumberToUint256String (maxAmountsIn (request jreq))) (\<lambda>amounts.
     bindE (thrown (methods_queryJoin query
              [AbiString (QueryPoolRequest.poolId jreq),
               AbiString ZERO_ADDRESS,
               AbiString ZERO_ADDRESS,
               AbiArray [AbiArray (map AbiString (JoinPoolRequest.assets (request jreq))),
                         AbiArray (map AbiIntString amounts),
                         AbiBytes (JoinPoolRequest.userData (request jreq)),
                         AbiBool (JoinPoolRequest.fromInternalBalance (request jreq))]])) (\<lambda>result.
       case result of
         None \<Rightarrow> Inl (Error ''Invalid result'')
       | Some r \<Rightarrow>
          (case amountsIn r of
             None \<Rightarrow> Inl (Error ''Invalid result'')
           | Some a \<Rightarrow>
               if length a \<noteq> length (JoinPoolRequest.assets (request jreq))
               then Inl (Error ''Invalid result'')
               else Inr \<lparr>QueryJoinPoolResponse.liquidity = bn_of_uint (bptOut r),
                         usedInput = map bn_of_uint a,
                         unusedInput =
                           map (\<lambda>(i, x). bn_minus x (bn_at (map bn_of_uint a) i))
                               (enumerate 0 (maxAmountsIn (request jreq)))\<rparr>))))
   \<and> queryExitPool this ereq =
     bindE (thrown (getQueryContract this)) (\<lambda>query.
     bindE (mapE bigNumberToUint256String (minAmountsOut (request ereq))) (\<lambda>amounts.
     bindE (thrown (methods_queryExit query
              [AbiString (QueryPoolRequest.poolId ereq),
               AbiString ZERO_ADDRESS,
               AbiString ZERO_ADDRESS,
               AbiArray [AbiArray (map AbiString (ExitPoolRequest.assets (request ereq))),
                         AbiArray (map AbiIntString amounts),
                         AbiBytes (ExitPoolRequest.userData (request ereq)),
                         AbiBool (ExitPoolRequest.toInternalBalance (request ereq))]])) (\<lambda>result.
       case result of
         None \<Rightarrow> Inl (Error ''Invalid result'')
       | Some r \<Rightarrow>
          (case amountsOut r of
             None \<Rightarrow> Inl (Error ''Invalid result'')
           | Some a \<Rightarrow>
               if length a \<noteq> length (ExitPoolRequest.assets (request ereq))
               then Inl (Error ''Invalid result'')
               else Inr \<lparr>QueryExitPoolResponse.liquidity = bn_of_uint (bptIn r),
                         outputs = map bn_of_uint a\<rparr>))))
   \<and> queryJoinPool (this\<lparr>getQueryContract := map_sum id onlyZeroParties (getQueryContract this)\<rparr>) jreq
     = queryJoinPool this jreq
   \<and> queryExitPool (this\<lparr>getQueryContract := map_sum id onlyZeroParties (getQueryContract this)\<rparr>) ereq
     = queryExitPool this ereq"
proof (intro conjI)
  show "queryJoinPool this jreq =
     bindE (thrown (getQueryContract this)) (\<lambda>query.
     bindE (mapE bigNumberToUint256String (maxAmountsIn (request jreq))) (\<lambda>amounts.
     bindE (thrown (methods_queryJoin query
              [AbiString (QueryPoolRequest.poolId jreq),
               AbiString ZERO_ADDRESS,
               AbiString ZERO_ADDRESS,
               AbiArray [AbiArray (map AbiString (JoinPoolRequest.assets (request jreq))),
                         AbiArray (map AbiIntString amounts),
                         AbiBytes (JoinPoolRequest.userData (request jreq)),
                         AbiBool (JoinPoolRequest.fromInternalBalance (request jreq))]])) (\<lambda>result.
       case result of
         None \<Rightarrow> Inl (Error ''Invalid result'')
       | Some r \<Rightarrow>
          (case amountsIn r of
             None \<Rightarrow> Inl (Error ''Invalid result'')
           | Some a \<Rightarrow>
               if length a \<noteq> length (JoinPoolRequest.assets (request jreq))
               then Inl (Error ''Invalid result'')
               else Inr \<lparr>QueryJoinPoolResponse.liquidity = bn_of_uint (bptOut r),
                         usedInput = map bn_of_uint a,
                         unusedInput =
                           map (\<lambda>(i, x). bn_minus x (bn_at (map bn_of_uint a) i))
                               (enumerate 0 (maxAmountsIn (request jreq)))\<rparr>))))"
  proof (cases "mapE bigNumberToUint256String (maxAmountsIn (request jreq))")
    case (Inl e)
    then show ?thesis
      by (simp add: queryJoinPool_def queryJoinPool_arguments_def bindE_def split: sum.splits)
  next
    case (Inr amounts)
    then show ?thesis
      by (auto simp: queryJoinPool_def queryJoinPool_arguments_def Let_def bindE_def
          split: sum.splits option.splits)
  qed
next
  show "queryExitPool this ereq =
     bindE (thrown (getQueryContract this)) (\<lambda>query.
     bindE (mapE bigNumberToUint256String (minAmountsOut (request ereq))) (\<lambda>amounts.
     bindE (thrown (methods_queryExit query
              [AbiString (QueryPoolRequest.poolId ereq),
               AbiString ZERO_ADDRESS,
               AbiString ZERO_ADDRESS,
               AbiArray [AbiArray (map AbiString (ExitPoolRequest.assets (request ereq))),
                         AbiArray (map AbiIntString amounts),
                         AbiBytes (ExitPoolRequest.userData (request ereq)),
                         AbiBool (ExitPoolRequest.toInternalBalance (request ereq))]])) (\<lambda>result.
       case result of
         None \<Rightarrow> Inl (Error ''Invalid result'')
       | Some r \<Rightarrow>
          (case amountsOut r of
             None \<Rightarrow> Inl (Error ''Invalid result'')
           | Some a \<Rightarrow>
               if length a \<noteq> length (ExitPoolRequest.assets (request ereq))
               then Inl (Error ''Invalid result'')
               else Inr \<lparr>QueryExitPoolResponse.liquidity = bn_of_uint (bptIn r),
                         outputs = map bn_of_uint a\<rparr>))))"
  proof (cases "mapE bigNumberToUint256String (minAmountsOut (request ereq))")
    case (Inl e)
    then show ?thesis
      by (simp add: queryExitPool_def queryExitPool_arguments_def bindE_def split: sum.splits)
  next
    case (Inr amounts)
    then show ?thesis
      by (simp add: queryExitPool_def queryExitPool_arguments_def bindE_def split: sum.splits)
  qed
next
  show "queryJoinPool (this\<lparr>getQueryContract := map_sum id onlyZeroParties (getQueryContract this)\<rparr>) jreq
     = queryJoinPool this jreq"
  proof (cases "getQueryContract this")
    case (Inl m)
    then show ?thesis by (simp add: queryJoinPool_def)
  next
    case (Inr q)
    show ?thesis
    proof (cases "queryJoinPool_arguments (queryArgs jreq)")
      case (Inl e)
      with Inr show ?thesis by (simp add: queryJoinPool_def)
    next
      case args: (Inr arguments)
      from queryJoinPool_arguments_zero [OF args] Inr args show ?thesis
        by (simp add: queryJoinPool_def onlyZeroParties_def)
    qed
  qed
next
  show "queryExitPool (this\<lparr>getQueryContract := map_sum id onlyZeroParties (getQueryContract this)\<rparr>) ereq
     = queryExitPool this ereq"
  proof (cases "getQueryContract this")
    case (Inl m)
    then show ?thesis by (simp add: queryExitPool_def)
  next
    case (Inr q)
    show ?thesis
    proof (cases "queryExitPool_arguments (queryArgs ereq)")
      case (Inl e)
      with Inr show ?thesis by (simp add: queryExitPool_def bindE_def split: sum.splits)
    next
      case args: (Inr arguments)
      from queryExitPool_arguments_zero [OF args] Inr args show ?thesis
        by (simp add: queryExitPool_def onlyZeroParties_def bindE_def split: sum.splits)
    qed
  qed
qed

theorem query_parties_zero_witness:
  "PoolArgs.sender exampleJoin = ''0xSender'' \<and> PoolArgs.recipient exampleJoin = ''0xRecipient''
   \<and> queryJoinPool (exampleVault\<lparr>getQueryContract := Inr echoParties\<rparr>) exampleJoin
     = Inl (Thrown (''sender '' @ ZERO_ADDRESS @ '' recipient '' @ ZERO_ADDRESS))
   \<and> PoolArgs.sender (exampleExit 2) = ''0xSender'' \<and> PoolArgs.recipient (exampleExit 2) = ''0xRecipient''
   \<and> queryExitPool (exampleVault\<lparr>getQueryContract := Inr echoParties\<rparr>) (exampleExit 2)
     = Inl (Thrown (''sender '' @ ZERO_ADDRESS @ '' recipient '' @ ZERO_ADDRESS))
   \<and> queryJoinPool (exampleVault\<lparr>getQueryContract := Inr (onlyZeroParties (exampleQuery (Some [1, 2])))\<rparr>)
        exampleJoin
     = Inr \<lparr>QueryJoinPoolResponse.liquidity = BN 7, usedInput = [BN 1, BN 2],
            unusedInput = [BN 4, BN 4]\<rparr>
   \<and> queryExitPool (exampleVault\<lparr>getQueryContract := Inr (onlyZeroParties (exampleQuery (Some [1, 2])))\<rparr>)
        (exampleExit 2)
     = Inr \<lparr>QueryExitPoolResponse.liquidity = BN 7, outputs = [BN 1, BN 2]\<rparr>"
proof -
  have j: "maxAmountsIn (request exampleJoin) = [BN 5, BN 6]"
          "JoinPoolRequest.assets (request exampleJoin) = [''0xA'', ''0xB'']"
          "PoolArgs.sender exampleJoin = ''0xSender''"
          "PoolArgs.recipient exampleJoin = ''0xRecipient''"
    by (simp_all add: exampleJoin_def)
  have e: "minAmountsOut (request (exampleExit 2)) = [BN 0, BN 0]"
          "ExitPoolRequest.assets (request (exampleExit 2)) = [''0xA'', ''0xB'']"
          "PoolArgs.sender (exampleExit 2) = ''0xSender''"
          "PoolArgs.recipient (exampleExit 2) = ''0xRecipient''"
    by (simp_all add: exampleExit_def)
  have z: "zeroParties [p, AbiString ZERO_ADDRESS, AbiString ZERO_ADDRESS, t]" for p t
    by (simp add: zeroParties_def)
  note t1 = query_parties_zero [of "exampleVault\<lparr>getQueryContract := Inr echoParties\<rparr>"
              exampleJoin "exampleExit 2"]
  note t2 = query_parties_zero
              [of "exampleVault\<lparr>getQueryContract := Inr (onlyZeroParties (exampleQuery (Some [1, 2])))\<rparr>"
                  exampleJoin "exampleExit 2"]
  have j1: "queryJoinPool (exampleVault\<lparr>getQueryContract := Inr echoParties\<rparr>) exampleJoin
     = Inl (Thrown (''sender '' @ ZERO_ADDRESS @ '' recipient '' @ ZERO_ADDRESS))"
    by (subst t1 [THEN conjunct1]) (simp add: j echoParties_def)
  have e1: "queryExitPool (exampleVault\<lparr>getQueryContract := Inr echoParties\<rparr>) (exampleExit 2)
     = Inl (Thrown (''sender '' @ ZERO_ADDRESS @ '' recipient '' @ ZERO_ADDRESS))"
    by (subst t1 [THEN conjunct2, THEN conjunct1]) (simp add: e echoParties_def)
  have j2: "queryJoinPool (exampleVault\<lparr>getQueryContract := Inr (onlyZeroParties (exampleQuery (Some [1, 2])))\<rparr>)
        exampleJoin
     = Inr \<lparr>QueryJoinPoolResponse.liquidity = BN 7, usedInput = [BN 1, BN 2],
            unusedInput = [BN 4, BN 4]\<rparr>"
    by (subst t2 [THEN conjunct1])
       (simp add: j z onlyZeroParties_def exampleQuery_def bn_of_uint_def bn_at_def bn_minus_def
          enumerate_eq_zip upt_rec)
  have e2: "queryExitPool (exampleVault\<lparr>getQueryContract := Inr (onlyZeroParties (exampleQuery (Some [1, 2])))\<rparr>)
        (exampleExit 2)
     = Inr \<lparr>QueryExitPoolResponse.liquidity = BN 7, outputs = [BN 1, BN 2]\<rparr>"
    by (subst t2 [THEN conjunct2, THEN conjunct1])
       (simp add: e z onlyZeroParties_def exampleQuery_def bn_of_uint_def)
  from j e j1 e1 j2 e2 show ?thesis by simp
qed

subsection \<open>\<^verbatim>\<open>checkToken\<close>\<close>

text \<open>
  C8. \<^verbatim>\<open>checkToken(pool, token, label)\<close> throws an error whose message is the label
  followed by \<^verbatim>\<open>" must be a pool token"\<close> exactly when no token of the pool has the given
  address, and otherwise returns without a value or an effect.
\<close>

theorem checkToken_pool_token:
  "checkToken pool tk (Some lbl) =
     (if tk \<in> set (map address (PoolConfig.tokens pool)) then Inr ()
      else Inl (Error (lbl @ '' must be a pool token'')))"
  by (auto simp: checkToken_def findIndex_minus_one)

theorem checkToken_pool_token_witness:
  "checkToken \<lparr>PoolConfig.tokens = [\<lparr>address = ''0xA''\<rparr>, \<lparr>address = ''0xB''\<rparr>]\<rparr> ''0xC'' (Some ''asset'')
     = Inl (Error ''asset must be a pool token'')
   \<and> checkToken \<lparr>PoolConfig.tokens = [\<lparr>address = ''0xA''\<rparr>, \<lparr>address = ''0xB''\<rparr>]\<rparr> ''0xB'' (Some ''asset'')
     = Inr ()"
  using checkToken_pool_token [of "\<lparr>PoolConfig.tokens = [\<lparr>address = ''0xA''\<rparr>, \<lparr>address = ''0xB''\<rparr>]\<rparr>" "''0xC''" "''asset''"]
        checkToken_pool_token [of "\<lparr>PoolConfig.tokens = [\<lparr>address = ''0xA''\<rparr>, \<lparr>address = ''0xB''\<rparr>]\<rparr>" "''0xB''" "''asset''"]
  by simp

subsection \<open>Zap steps without balance insertion\<close>

text \<open>
  C9. With \<^verbatim>\<open>insertBalance\<close> false, each of \<^verbatim>\<open>getJoinPoolZap\<close>, \<^verbatim>\<open>getExitPoolZap\<close> and
  \<^verbatim>\<open>getSwapZap\<close> returns the encoded call with an empty token list whenever the encoding
  succeeds. \<^verbatim>\<open>getExitPoolZap\<close> then does not look at the exit kind in \<^verbatim>\<open>userData\<close>, so it
  succeeds also for a discriminant that is not supported.
\<close>

theorem zap_without_insertion:
  "(\<not> JoinPoolZapRequest.insertBalance jreq \<longrightarrow>
      getJoinPoolZap this jreq =
        bindE (encodeJoinPool this (join jreq)) (\<lambda>d.
          Inr \<lparr>target = vaultAddress (config this), value = ''0'', data = d, tokens = []\<rparr>))
   \<and> (\<not> ExitPoolZapRequest.insertBalance ereq \<longrightarrow>
      getExitPoolZap this ereq =
        bindE (encodeExitPool this (exit ereq)) (\<lambda>d.
          Inr \<lparr>target = vaultAddress (config this), value = ''0'', data = d, tokens = []\<rparr>))
   \<and> (\<not> SwapZapRequest.insertBalance sreq \<longrightarrow>
      getSwapZap this sreq =
        bindE (encodeSwap this (swap sreq)) (\<lambda>d.
          Inr \<lparr>target = vaultAddress (config this), value = ''0'', data = d, tokens = []\<rparr>))"
  by (simp add: getJoinPoolZap_def getExitPoolZap_def getExitPoolZapTokens_def getSwapZap_def Let_def)

theorem zap_without_insertion_witness:
  "getJoinPoolZap exampleVault \<lparr>join = exampleJoin, insertBalance = False\<rparr>
     = Inr \<lparr>target = ''0xVault'', value = ''0'', data = ''0x:joinPool'', tokens = []\<rparr>
   \<and> getExitPoolZap exampleVault \<lparr>exit = exampleExit 99, poolAddress = ''0xBPT'', insertBalance = False\<rparr>
     = Inr \<lparr>target = ''0xVault'', value = ''0'', data = ''0x:exitPool'', tokens = []\<rparr>
   \<and> decodeParameter_uint256 (ExitPoolRequest.userData (request (exampleExit 99))) = Inr 99
   \<and> getSwapZap exampleVault \<lparr>swap = exampleSwap, insertBalance = False\<rparr>
     = Inr \<lparr>target = ''0xVault'', value = ''0'', data = ''0x:swap'', tokens = []\<rparr>"
proof -
  have cfg: "vaultAddress (config exampleVault) = ''0xVault''"
    by (simp add: exampleVault_def)
  show ?thesis
    using zap_without_insertion [of "\<lparr>join = exampleJoin, insertBalance = False\<rparr>" exampleVault
            "\<lparr>exit = exampleExit 99, poolAddress = ''0xBPT'', insertBalance = False\<rparr>"
            "\<lparr>swap = exampleSwap, insertBalance = False\<rparr>"]
    by (simp add: encodeJoinPool_example encodeExitPool_example encodeSwap_example cfg decode_exampleExit)
qed

end
